theory Spec2Isabelle
  imports Complex_Main
begin

section \<open>Strings and numbers of the source language\<close>

text \<open>
  A string is the list of its UTF-16 code units; the model covers the strings whose
  code units lie below 0x100, so that a \<^typ>\<open>char\<close> is one code unit and
  \<^const>\<open>length\<close> is the \<^verbatim>\<open>length\<close> of the source. The pound sign
  U+00A3 is \<open>CHR 0xA3\<close>, the letter U+00C2 is \<open>CHR 0xC2\<close>.

  A number is a binary64 value: NaN, an infinity, or a rational that binary64 has. The
  program only asks whether a number is NaN, whether it is falsy, and for its decimal
  text; positive and negative zero agree on all three and are one value here.
\<close>

datatype number = NaN | PosInfinity | NegInfinity | Finite rat

definition isNaN :: "number \<Rightarrow> bool" where
  "isNaN n \<longleftrightarrow> n = NaN"

definition negate :: "number \<Rightarrow> number" where
  "negate n = (case n of NaN \<Rightarrow> NaN | PosInfinity \<Rightarrow> NegInfinity
     | NegInfinity \<Rightarrow> PosInfinity | Finite q \<Rightarrow> Finite (- q))"

text \<open>Truthiness of a number: \<open>0\<close> and \<open>NaN\<close> are falsy.\<close>

definition truthyNumber :: "number \<Rightarrow> bool" where
  "truthyNumber n \<longleftrightarrow> n \<noteq> NaN \<and> n \<noteq> Finite 0"

subsection \<open>Rounding to binary64\<close>

text \<open>
  The number of binary digits of a natural number, and with it the exponent \<open>k\<close> of a
  positive fraction \<open>n / d\<close>, the one with \<open>2 ^ k \<le> n / d < 2 ^ (k + 1)\<close>.
\<close>

fun bitLength :: "nat \<Rightarrow> nat" where
  "bitLength n = (if n = 0 then 0 else Suc (bitLength (n div 2)))"

declare bitLength.simps [simp del]

definition floorLog2 :: "nat \<Rightarrow> nat \<Rightarrow> int" where
  "floorLog2 n d =
     (if d \<le> n then int (bitLength (n div d)) - 1
      else - int (bitLength ((d + n - 1) div n - 1)))"

definition scale2 :: "rat \<Rightarrow> int \<Rightarrow> rat" where
  "scale2 q e = (if 0 \<le> e then q * 2 ^ nat e else q / 2 ^ nat (- e))"

text \<open>
  The binary64 value of the fraction \<open>n / d\<close> (with \<open>d\<close> positive): the nearest
  multiple \<open>m * 2 ^ e\<close> of \<open>2 ^ e\<close>, ties to the even \<open>m\<close>, where \<open>e\<close> leaves
  53 binary digits and is at least \<open>- 1074\<close>. Here \<open>p / q\<close> is \<open>n / d\<close> divided by
  \<open>2 ^ e\<close>, with the quotient \<open>f\<close> and the remainder \<open>r\<close>. From \<open>2 ^ 1024\<close> on the
  value is infinite; a fraction below half of \<open>2 ^ - 1074\<close> becomes 0.
\<close>

definition toBinary64 :: "nat \<Rightarrow> nat \<Rightarrow> number" where
  "toBinary64 n d =
     (if n = 0 then Finite 0
      else
        let k = floorLog2 n d;
            e = (if k - 52 < - 1074 then - 1074 else k - 52);
            p = (if 0 \<le> e then n else n * 2 ^ nat (- e));
            q = (if 0 \<le> e then d * 2 ^ nat e else d);
            f = p div q;
            r = p mod q;
            m = (if 2 * r < q then f else if q < 2 * r then f + 1
                 else if even f then f else f + 1);
            v = scale2 (of_nat m) e
        in if 2 ^ 1024 \<le> v then PosInfinity else Finite v)"

subsection \<open>Characters and texts\<close>

definition isDigit :: "char \<Rightarrow> bool" where
  "isDigit c \<longleftrightarrow> 48 \<le> (of_char c :: nat) \<and> (of_char c :: nat) \<le> 57"

definition digitValue :: "char \<Rightarrow> nat" where
  "digitValue c = of_char c - 48"

definition digitsValue :: "string \<Rightarrow> nat" where
  "digitsValue ds = foldl (\<lambda>n c. 10 * n + digitValue c) 0 ds"

text \<open>
  White space and line terminators of the language, as far as they lie in the modelled
  range: TAB, LF, VT, FF, CR, SP and NBSP.
\<close>

definition isWhiteSpace :: "char \<Rightarrow> bool" where
  "isWhiteSpace c \<longleftrightarrow>
     c = CHR 0x09 \<or> c = CHR 0x0A \<or> c = CHR 0x0B \<or> c = CHR 0x0C \<or> c = CHR 0x0D \<or>
     c = CHR 0x20 \<or> c = CHR 0xA0"

definition trim :: "string \<Rightarrow> string" where
  "trim s = rev (dropWhile isWhiteSpace (rev (dropWhile isWhiteSpace s)))"

text \<open>
  \<^verbatim>\<open>s.replace(pattern, replacement)\<close> with a string pattern: only the first
  occurrence is replaced.
\<close>

fun replace :: "string \<Rightarrow> string \<Rightarrow> string \<Rightarrow> string" where
  "replace pat rep [] = (if pat = [] then rep else [])"
| "replace pat rep (c # cs) =
     (if take (length pat) (c # cs) = pat then rep @ drop (length pat) (c # cs)
      else c # replace pat rep cs)"

text \<open>\<^verbatim>\<open>parts.join(sep)\<close>.\<close>

fun join :: "string \<Rightarrow> string list \<Rightarrow> string" where
  "join sep [] = []"
| "join sep [x] = x"
| "join sep (x # y # ys) = x @ sep @ join sep (y # ys)"

text \<open>The decimal text of a non-negative integer, and of an integer.\<close>

fun showNat :: "nat \<Rightarrow> string" where
  "showNat n =
     (if n < 10 then [''0123456789'' ! n] else showNat (n div 10) @ [''0123456789'' ! (n mod 10)])"

declare showNat.simps [simp del]

definition showInt :: "int \<Rightarrow> string" where
  "showInt k = (if k < 0 then CHR ''-'' # showNat (nat (- k)) else showNat (nat k))"

subsection \<open>parseFloat\<close>

text \<open>
  \<^verbatim>\<open>parseFloat\<close> skips leading white space and reads the longest prefix that is a
  \<^verbatim>\<open>StrDecimalLiteral\<close>: an optional sign, then \<^verbatim>\<open>Infinity\<close> or
  digits with an optional fraction and an optional exponent. With no such prefix the
  result is NaN; otherwise it is the value of the literal, the digits times a power of
  ten, rounded to binary64.
\<close>

definition exponentPart :: "string \<Rightarrow> int" where
  "exponentPart s =
     (case s of
        [] \<Rightarrow> 0
      | c # t \<Rightarrow>
          if c = CHR ''e'' \<or> c = CHR ''E'' then
            (case t of
               [] \<Rightarrow> 0
             | d # u \<Rightarrow>
                 if d = CHR ''+'' then int (digitsValue (takeWhile isDigit u))
                 else if d = CHR ''-'' then - int (digitsValue (takeWhile isDigit u))
                 else int (digitsValue (takeWhile isDigit t)))
          else 0)"

definition unsignedLiteral :: "string \<Rightarrow> number" where
  "unsignedLiteral s =
     (if take 8 s = ''Infinity'' then PosInfinity
      else
        let ip = takeWhile isDigit s;
            r1 = dropWhile isDigit s;
            dot = (r1 \<noteq> [] \<and> hd r1 = CHR ''.'');
            fp = (if dot then takeWhile isDigit (tl r1) else []);
            r2 = (if dot then dropWhile isDigit (tl r1) else r1);
            x = exponentPart r2
        in if ip = [] \<and> fp = [] then NaN
           else if 0 \<le> x then
             toBinary64 (digitsValue (ip @ fp) * 10 ^ nat x) (10 ^ length fp)
           else
             toBinary64 (digitsValue (ip @ fp)) (10 ^ length fp * 10 ^ nat (- x)))"

definition parseFloat :: "string \<Rightarrow> number" where
  "parseFloat s =
     (let t = dropWhile isWhiteSpace s in
      case t of
        [] \<Rightarrow> NaN
      | c # u \<Rightarrow>
          if c = CHR ''-'' then negate (unsignedLiteral u)
          else if c = CHR ''+'' then unsignedLiteral u
          else unsignedLiteral t)"

section \<open>The discount code generator\<close>

subsection \<open>Data model\<close>

text \<open>
  The values the program handles besides numbers and texts. \<open>VObject\<close> stands for an
  object or a function that has none of the methods of a text (no
  \<^verbatim>\<open>replace\<close>, no \<^verbatim>\<open>toUpperCase\<close>), such as \<^verbatim>\<open>Object.create(null)\<close> or
  a member of \<^verbatim>\<open>Object.prototype\<close>.
\<close>

datatype jsvalue =
  VString string | VUndefined | VNull | VNumber number | VBoolean bool | VObject

definition truthy :: "jsvalue \<Rightarrow> bool" where
  "truthy v =
     (case v of
        VString s \<Rightarrow> s \<noteq> []
      | VUndefined \<Rightarrow> False
      | VNull \<Rightarrow> False
      | VNumber n \<Rightarrow> truthyNumber n
      | VBoolean b \<Rightarrow> b
      | VObject \<Rightarrow> True)"

text \<open>
  A row is a plain object whose own values are strings: the list of its own properties in
  the order \<^verbatim>\<open>Object.keys\<close> gives them. \<open>r[column]\<close> finds an own property
  first; for a column the row does not own it finds what the row inherits from
  \<^verbatim>\<open>Object.prototype\<close> under that name, a function or the prototype itself, and
  is \<^verbatim>\<open>undefined\<close> for every other name.
\<close>

type_synonym row = "(string \<times> string) list"

definition objectPrototypeNames :: "string list" where
  "objectPrototypeNames =
     [''constructor'', ''__defineGetter__'', ''__defineSetter__'', ''hasOwnProperty'',
      ''__lookupGetter__'', ''__lookupSetter__'', ''isPrototypeOf'', ''propertyIsEnumerable'',
      ''toString'', ''valueOf'', ''__proto__'', ''toLocaleString'']"

definition getCell :: "row \<Rightarrow> string \<Rightarrow> jsvalue" where
  "getCell r column =
     (case map_of r column of
        Some v \<Rightarrow> VString v
      | None \<Rightarrow> if column \<in> set objectPrototypeNames then VObject else VUndefined)"

definition keys :: "row \<Rightarrow> string list" where
  "keys r = map fst r"

datatype status = success | error

text \<open>
  A result. The generator stores in \<open>customer\<close> whatever value the name cell holds;
  the exporter declares it a text.
\<close>

record 'c DiscountResult =
  row :: int
  customer :: 'c
  status :: status
  discountCode :: "string option"
  amount :: "number option"
  message :: string

record summary =
  total :: nat
  successful :: nat
  errors :: nat

record report =
  report_results :: "jsvalue DiscountResult list"
  report_summary :: summary

subsection \<open>What the function meets at run time\<close>

text \<open>
  A value that is thrown: either it has a \<^verbatim>\<open>message\<close> that a template literal
  renders as the given text, or it is \<^verbatim>\<open>null\<close> or \<^verbatim>\<open>undefined\<close>, and reading
  its \<^verbatim>\<open>message\<close> raises a TypeError.
\<close>

datatype thrown = Thrown string | ThrownNullish

datatype 'a completion = Normal 'a | Throw thrown

text \<open>
  The body of a reply, a JSON object: \<open>gqlErrors\<close> is its \<^verbatim>\<open>errors\<close> when that
  is truthy (the messages of its entries), \<open>discountCodeBasicCreate\<close> is
  \<^verbatim>\<open>data?.discountCodeBasicCreate\<close> when that is truthy, and \<open>userErrors\<close> of the
  latter is its \<^verbatim>\<open>userErrors\<close> when truthy, each entry a pair of its
  \<^verbatim>\<open>field\<close> (when truthy) and its \<^verbatim>\<open>message\<close>.
\<close>

type_synonym userError = "string option \<times> string"

record payload =
  userErrors :: "userError list option"

record body =
  gqlErrors :: "string list option"
  discountCodeBasicCreate :: "payload option"

text \<open>
  The three shapes of what \<^verbatim>\<open>graphql\<close> resolves to: an object with a
  \<^verbatim>\<open>json\<close> function (what that call resolves to, or throws); an object with no
  such function and a truthy \<^verbatim>\<open>data\<close>; anything else, for which
  \<^verbatim>\<open>response.text()\<close> either yields a text, given with what
  \<^verbatim>\<open>JSON.parse\<close> makes of it (\<open>None\<close> when it throws), or throws.
\<close>

datatype response =
  WithJson "body completion"
| Parsed body
| WithText string "body option"
| Unreadable thrown

record variables =
  title :: string
  code :: string
  startsAt :: string
  discountAmount :: number

text \<open>
  The environment of one run, each component asked while row \<open>i\<close> (counted from 0) is
  processed: what building the snippet with \<^verbatim>\<open>new Function("name", source)\<close> and
  calling it on the value of the name cell comes to; what \<^verbatim>\<open>await graphql(...)\<close>
  comes to; \<^verbatim>\<open>Date.now()\<close>; and the text of \<^verbatim>\<open>new Date().toISOString()\<close>.
  The amount is sent as the decimal text of \<open>discountAmount\<close>.
\<close>

record env =
  transformFunc :: "nat \<Rightarrow> string \<Rightarrow> jsvalue \<Rightarrow> jsvalue completion"
  graphql :: "nat \<Rightarrow> variables \<Rightarrow> response completion"
  dateNow :: "nat \<Rightarrow> nat"
  toISOString :: "nat \<Rightarrow> string"

text \<open>What the run does to the outside, in order.\<close>

datatype effect = Graphql variables | SetTimeout nat

text \<open>An exception that leaves the function.\<close>

datatype failure = TypeError | Error string

text \<open>The local variables of \<^verbatim>\<open>generateDiscountCodes\<close>, and the effects so far.\<close>

record state =
  results :: "jsvalue DiscountResult list"
  successCount :: nat
  errorCount :: nat
  effects :: "effect list"

subsection \<open>The code\<close>

text \<open>
  Every error branch of the loop pushes a result with the row number \<open>i + 1\<close>, a
  customer, the status \<open>error\<close> and a message, and increments \<open>errorCount\<close>.
\<close>

definition pushError :: "state \<Rightarrow> nat \<Rightarrow> jsvalue \<Rightarrow> string \<Rightarrow> state" where
  "pushError st i name msg =
     st\<lparr>results := results st @
          [\<lparr>row = int i + 1, customer = name, status = error, discountCode = None,
            amount = None, message = msg\<rparr>],
        errorCount := errorCount st + 1\<rparr>"

definition pushSuccess :: "state \<Rightarrow> nat \<Rightarrow> string \<Rightarrow> string \<Rightarrow> number \<Rightarrow> state" where
  "pushSuccess st i name dc priceValue =
     st\<lparr>results := results st @
          [\<lparr>row = int i + 1, customer = VString name, status = success,
            discountCode = Some dc, amount = Some priceValue,
            message = ''Discount code created successfully''\<rparr>],
        successCount := successCount st + 1\<rparr>"

definition perform :: "state \<Rightarrow> effect \<Rightarrow> state" where
  "perform st e = st\<lparr>effects := effects st @ [e]\<rparr>"

text \<open>
  \<^verbatim>\<open>toUpperCase\<close> on the modelled range: the letters a to z and the accented
  letters U+00E0 to U+00FE (without the division sign U+00F7) have their capital 0x20
  below, looked up in a table, and the sharp s U+00DF becomes \<open>SS\<close>. The capitals
  of U+00B5 and U+00FF lie outside the range; they are left as they are, which the
  replacement that follows in \<open>cleanName\<close> turns into \<open>_\<close> as it does their
  capitals.
\<close>

definition accentedCapitals :: string where
  "accentedCapitals =
     [CHR 0xC0, CHR 0xC1, CHR 0xC2, CHR 0xC3, CHR 0xC4, CHR 0xC5, CHR 0xC6, CHR 0xC7,
      CHR 0xC8, CHR 0xC9, CHR 0xCA, CHR 0xCB, CHR 0xCC, CHR 0xCD, CHR 0xCE, CHR 0xCF,
      CHR 0xD0, CHR 0xD1, CHR 0xD2, CHR 0xD3, CHR 0xD4, CHR 0xD5, CHR 0xD6, CHR 0xD7,
      CHR 0xD8, CHR 0xD9, CHR 0xDA, CHR 0xDB, CHR 0xDC, CHR 0xDD, CHR 0xDE]"

definition upperUnit :: "char \<Rightarrow> string" where
  "upperUnit c =
     (let n = (of_char c :: nat) in
      if 97 \<le> n \<and> n \<le> 122 then [''ABCDEFGHIJKLMNOPQRSTUVWXYZ'' ! (n - 97)]
      else if n = 223 then ''SS''
      else if 224 \<le> n \<and> n \<le> 254 \<and> n \<noteq> 247 then [accentedCapitals ! (n - 224)]
      else [c])"

definition toUpperCase :: "string \<Rightarrow> string" where
  "toUpperCase s = concat (map upperUnit s)"

text \<open>The class \<^verbatim>\<open>[A-Z0-9]\<close>.\<close>

definition isUpperOrDigit :: "char \<Rightarrow> bool" where
  "isUpperOrDigit c \<longleftrightarrow>
     (65 \<le> (of_char c :: nat) \<and> (of_char c :: nat) \<le> 90) \<or> isDigit c"

definition cleanName :: "string \<Rightarrow> string" where
  "cleanName name =
     map (\<lambda>c. if isUpperOrDigit c then c else CHR ''_'') (toUpperCase name)"

definition mkDiscountCode :: "string \<Rightarrow> nat \<Rightarrow> string" where
  "mkDiscountCode name timestamp =
     take 50 (''KICKSTARTER_'' @ cleanName name @ ''_'' @ showNat timestamp)"

text \<open>The handler of the outer \<^verbatim>\<open>try\<close>: it reads \<^verbatim>\<open>error.message\<close>.\<close>

definition apiError :: "state \<Rightarrow> nat \<Rightarrow> string \<Rightarrow> thrown \<Rightarrow> failure + state" where
  "apiError st i name t =
     (case t of
        ThrownNullish \<Rightarrow> Inl TypeError
      | Thrown m \<Rightarrow> Inr (pushError st i (VString name) (''API Error: '' @ m)))"

text \<open>Lines 141 to 189: the parsed reply is read.\<close>

definition readBody ::
  "state \<Rightarrow> nat \<Rightarrow> string \<Rightarrow> string \<Rightarrow> number \<Rightarrow> body \<Rightarrow> state" where
  "readBody st i name dc priceValue responseData =
     (case gqlErrors responseData of
        Some ms \<Rightarrow> pushError st i (VString name) (''GraphQL errors: '' @ join '', '' ms)
      | None \<Rightarrow>
          (case discountCodeBasicCreate responseData of
             None \<Rightarrow>
               pushError st i (VString name) ''No discountCodeBasicCreate data in response''
           | Some discountData \<Rightarrow>
               perform
                 (if userErrors discountData \<noteq> None \<and> the (userErrors discountData) \<noteq> []
                  then pushError st i (VString name)
                    (join '', ''
                       (map (\<lambda>(f, m).
                               (case f of None \<Rightarrow> ''unknown''
                                | Some x \<Rightarrow> if x = [] then ''unknown'' else x) @ '': '' @ m)
                          (the (userErrors discountData))))
                  else pushSuccess st i name dc priceValue)
                 (SetTimeout 600)))"

text \<open>Lines 78 to 198: the remote call and the three shapes of its reply.\<close>

definition callRemote ::
  "env \<Rightarrow> state \<Rightarrow> nat \<Rightarrow> string \<Rightarrow> string \<Rightarrow> number \<Rightarrow> failure + state" where
  "callRemote ev st i name dc priceValue =
     (let vars = \<lparr>title = ''Kickstarter Backer - '' @ name, code = dc,
                  startsAt = toISOString ev i, discountAmount = priceValue\<rparr>;
          st1 = perform st (Graphql vars)
      in case graphql ev i vars of
           Throw t \<Rightarrow> apiError st1 i name t
         | Normal (WithJson (Throw t)) \<Rightarrow> apiError st1 i name t
         | Normal (WithJson (Normal responseData)) \<Rightarrow>
             Inr (readBody st1 i name dc priceValue responseData)
         | Normal (Parsed responseData) \<Rightarrow>
             Inr (readBody st1 i name dc priceValue responseData)
         | Normal (Unreadable t) \<Rightarrow> apiError st1 i name t
         | Normal (WithText responseText parsed) \<Rightarrow>
             (case parsed of
                None \<Rightarrow> Inr (pushError st1 i (VString name)
                               (''Invalid response format: '' @ take 100 responseText))
              | Some responseData \<Rightarrow>
                  Inr (readBody st1 i name dc priceValue responseData)))"

text \<open>
  Lines 70 to 76: the code is made from \<open>customerName\<close>, whatever value it holds; a
  value that is not a text has no \<^verbatim>\<open>toUpperCase\<close>.
\<close>

definition synthesize ::
  "env \<Rightarrow> state \<Rightarrow> nat \<Rightarrow> jsvalue \<Rightarrow> number \<Rightarrow> failure + state" where
  "synthesize ev st i customerName priceValue =
     (case customerName of
        VString name \<Rightarrow>
          callRemote ev st i name (mkDiscountCode name (dateNow ev i)) priceValue
      | _ \<Rightarrow> Inl TypeError)"

text \<open>
  The body of the loop for row \<open>r\<close> at index \<open>i\<close>. A price cell that is not a text
  has no \<^verbatim>\<open>replace\<close>.
\<close>

definition processRow ::
  "env \<Rightarrow> string \<Rightarrow> string \<Rightarrow> string \<Rightarrow> nat \<Rightarrow> row \<Rightarrow> state \<Rightarrow> failure + state" where
  "processRow ev nameColumn priceColumn transformFunction i r st =
     (let customerName = getCell r nameColumn in
      case getCell r priceColumn of
        VString cell \<Rightarrow>
          let priceValue = parseFloat (replace [CHR 0xC2, CHR 0xA3] [] cell) in
          if \<not> truthy customerName \<or> isNaN priceValue then
            Inr (pushError st i
                   (if truthy customerName then customerName else VString ''Unknown'')
                   ''Invalid name or price'')
          else if transformFunction \<noteq> [] \<and> trim transformFunction \<noteq> [] then
            (case transformFunc ev i transformFunction customerName of
               Throw ThrownNullish \<Rightarrow> Inl TypeError
             | Throw (Thrown m) \<Rightarrow>
                 Inr (pushError st i customerName (''Transform function error: '' @ m))
             | Normal v \<Rightarrow> synthesize ev st i v priceValue)
          else synthesize ev st i customerName priceValue
      | _ \<Rightarrow> Inl TypeError)"

fun loop ::
  "env \<Rightarrow> string \<Rightarrow> string \<Rightarrow> string \<Rightarrow> nat \<Rightarrow> row list \<Rightarrow> state \<Rightarrow> failure + state" where
  "loop ev nameColumn priceColumn transformFunction i [] st = Inr st"
| "loop ev nameColumn priceColumn transformFunction i (r # rs) st =
     (case processRow ev nameColumn priceColumn transformFunction i r st of
        Inl e \<Rightarrow> Inl e
      | Inr st' \<Rightarrow> loop ev nameColumn priceColumn transformFunction (i + 1) rs st')"

definition initial :: state where
  "initial = \<lparr>results = [], successCount = 0, errorCount = 0, effects = []\<rparr>"

text \<open>The run of the loop over all rows, with the effects it had.\<close>

definition run :: "env \<Rightarrow> row list \<Rightarrow> string \<Rightarrow> string \<Rightarrow> string \<Rightarrow> failure + state" where
  "run ev data nameColumn priceColumn transformFunction =
     loop ev nameColumn priceColumn transformFunction 0 data initial"

definition generateDiscountCodes ::
  "env \<Rightarrow> row list \<Rightarrow> string \<Rightarrow> string \<Rightarrow> string \<Rightarrow> failure + report" where
  "generateDiscountCodes ev data nameColumn priceColumn transformFunction =
     (case run ev data nameColumn priceColumn transformFunction of
        Inl e \<Rightarrow> Inl e
      | Inr st \<Rightarrow>
          Inr \<lparr>report_results = results st,
               report_summary =
                 \<lparr>total = length data, successful = successCount st, errors = errorCount st\<rparr>\<rparr>)"

section \<open>The CSV exporter\<close>

text \<open>
  The results the exporters take are declared with a text as \<open>customer\<close>.
  The exporters render a number with the language's own conversion to text, and stamp
  each data row with \<^verbatim>\<open>new Date().toISOString()\<close>. Both are parameters:
  \<open>numberToString\<close>, and \<open>generatedAt\<close>, the stamp of the data row at an index.
\<close>

definition quoted :: "string \<Rightarrow> string" where
  "quoted s = CHR 0x22 # s @ [CHR 0x22]"

text \<open>\<^verbatim>\<open>.replace(/"/g, '""')\<close>: every double quote is doubled.\<close>

definition escapeQuotes :: "string \<Rightarrow> string" where
  "escapeQuotes s = concat (map (\<lambda>c. if c = CHR 0x22 then [c, c] else [c]) s)"

definition statusText :: "status \<Rightarrow> string" where
  "statusText s = (case s of success \<Rightarrow> ''success'' | error \<Rightarrow> ''error'')"

text \<open>
  The \<^verbatim>\<open>Map\<close> from \<open>result.row - 1\<close> to the result: a later result with the
  same row number replaces an earlier one.
\<close>

definition resultMap ::
  "string DiscountResult list \<Rightarrow> int \<Rightarrow> string DiscountResult option" where
  "resultMap rs = foldl (\<lambda>m res. m(row res - 1 \<mapsto> res)) Map.empty rs"

text \<open>
  \<^verbatim>\<open>String(row[header] || "")\<close>. For a header the row does not own but inherits,
  the text is that of the inherited member: the prototype itself for
  \<^verbatim>\<open>__proto__\<close>, a native function for the other names, with the text that the
  engine of the program (V8) gives a native function.
\<close>

definition inheritedText :: "string \<Rightarrow> string" where
  "inheritedText name =
     (if name = ''__proto__'' then ''[object Object]''
      else if name = ''constructor'' then ''function Object() { [native code] }''
      else ''function '' @ name @ ''() { [native code] }'')"

definition cellText :: "string \<Rightarrow> jsvalue \<Rightarrow> string" where
  "cellText header v =
     (case v of VString s \<Rightarrow> s | VObject \<Rightarrow> inheritedText header | _ \<Rightarrow> [])"

definition originalValues :: "string list \<Rightarrow> row \<Rightarrow> string list" where
  "originalValues originalHeaders r =
     map (\<lambda>header. quoted (escapeQuotes (cellText header (getCell r header))))
       originalHeaders"

text \<open>\<open>result?.amount || ""\<close> in a template literal.\<close>

definition amountText :: "(number \<Rightarrow> string) \<Rightarrow> number option \<Rightarrow> string" where
  "amountText numberToString a =
     (case a of None \<Rightarrow> [] | Some n \<Rightarrow> if truthyNumber n then numberToString n else [])"

definition newValues ::
  "(number \<Rightarrow> string) \<Rightarrow> string \<Rightarrow> string DiscountResult option \<Rightarrow> string list" where
  "newValues numberToString stamp result =
     (let code' = (case result of None \<Rightarrow> []
                   | Some res \<Rightarrow> (case discountCode res of None \<Rightarrow> [] | Some c \<Rightarrow> c));
          amount' = (case result of None \<Rightarrow> []
                     | Some res \<Rightarrow> amountText numberToString (amount res));
          generationStatus = (case result of None \<Rightarrow> ''not_processed''
                              | Some res \<Rightarrow> statusText (status res));
          generationMessage = (case result of None \<Rightarrow> ''Not processed''
                               | Some res \<Rightarrow>
                                   if message res = [] then ''Not processed'' else message res)
      in [quoted code', quoted amount', quoted generationStatus,
          quoted (escapeQuotes generationMessage), quoted stamp])"

definition newHeaders :: "row list \<Rightarrow> string list" where
  "newHeaders originalData =
     keys (hd originalData) @
     [''Discount_Code'', ''Discount_Amount'', ''Generation_Status'', ''Generation_Message'',
      ''Generated_At'']"

text \<open>The cells of the data row made from the original row at \<open>index\<close>.\<close>

definition dataCells ::
  "(number \<Rightarrow> string) \<Rightarrow> (nat \<Rightarrow> string) \<Rightarrow> row list \<Rightarrow>
   string DiscountResult list \<Rightarrow> nat \<Rightarrow> string list" where
  "dataCells numberToString generatedAt originalData discountResults index =
     originalValues (keys (hd originalData)) (originalData ! index) @
     newValues numberToString (generatedAt index) (resultMap discountResults (int index))"

definition generateCSVWithCodes ::
  "(number \<Rightarrow> string) \<Rightarrow> (nat \<Rightarrow> string) \<Rightarrow> row list \<Rightarrow>
   string DiscountResult list \<Rightarrow> failure + string" where
  "generateCSVWithCodes numberToString generatedAt originalData discountResults =
     (if originalData = [] \<or> discountResults = [] then
        Inl (Error ''No data provided for CSV export'')
      else
        let headerRow = join '','' (map quoted (newHeaders originalData));
            dataRows =
              map (\<lambda>index. join '',''
                     (dataCells numberToString generatedAt originalData discountResults index))
                [0 ..< length originalData]
        in Inr (join [CHR 0x0A] (headerRow # dataRows)))"

definition summaryHeaders :: "string list" where
  "summaryHeaders =
     [''Row'', ''Customer_Name'', ''Discount_Code'', ''Discount_Amount'', ''Status'',
      ''Message'', ''Generated_At'']"

definition summaryCells ::
  "(number \<Rightarrow> string) \<Rightarrow> string \<Rightarrow> string DiscountResult \<Rightarrow> string list" where
  "summaryCells numberToString stamp result =
     map (\<lambda>v. quoted (escapeQuotes v))
       [showInt (row result),
        customer result,
        (case discountCode result of None \<Rightarrow> [] | Some c \<Rightarrow> c),
        amountText numberToString (amount result),
        statusText (status result),
        message result,
        stamp]"

definition generateSummaryCSV ::
  "(number \<Rightarrow> string) \<Rightarrow> (nat \<Rightarrow> string) \<Rightarrow> string DiscountResult list \<Rightarrow> string" where
  "generateSummaryCSV numberToString generatedAt discountResults =
     (let headerRow = join '','' (map quoted summaryHeaders);
          dataRows =
            map (\<lambda>index. join '',''
                   (summaryCells numberToString (generatedAt index) (discountResults ! index)))
              [0 ..< length discountResults]
      in join [CHR 0x0A] (headerRow # dataRows))"

definition isSuccessful :: "string DiscountResult \<Rightarrow> bool" where
  "isSuccessful r \<longleftrightarrow>
     status r = success \<and> discountCode r \<noteq> None \<and> discountCode r \<noteq> Some []"

definition successfulCells ::
  "(number \<Rightarrow> string) \<Rightarrow> string list \<Rightarrow> row \<Rightarrow> string DiscountResult \<Rightarrow> string list" where
  "successfulCells numberToString originalHeaders r result =
     originalValues originalHeaders r @
     [quoted (case discountCode result of None \<Rightarrow> ''undefined'' | Some c \<Rightarrow> c),
      quoted (case amount result of None \<Rightarrow> ''undefined'' | Some n \<Rightarrow> numberToString n)]"

definition generateSuccessfulCodesCSV ::
  "(number \<Rightarrow> string) \<Rightarrow> row list \<Rightarrow> string DiscountResult list \<Rightarrow> failure + string" where
  "generateSuccessfulCodesCSV numberToString originalData discountResults =
     (let successfulResults = filter isSuccessful discountResults in
      if successfulResults = [] then Inl (Error ''No successful discount codes to export'')
      else
        (case originalData of
           [] \<Rightarrow> Inl TypeError
         | first # _ \<Rightarrow>
             let originalHeaders = keys first;
                 headerRow =
                   join '','' (map quoted (originalHeaders @ [''Discount_Code'', ''Discount_Amount'']));
                 dataRows =
                   List.map_filter
                     (\<lambda>index.
                        case resultMap successfulResults (int index) of
                          None \<Rightarrow> None
                        | Some result \<Rightarrow>
                            if status result \<noteq> success then None
                            else Some (join '',''
                                   (successfulCells numberToString originalHeaders
                                      (originalData ! index) result)))
                     [0 ..< length originalData]
             in Inr (join [CHR 0x0A] (headerRow # dataRows))))"

section \<open>Invariant of the loop\<close>

text \<open>One more result, and one more in the two counters together.\<close>

definition extends :: "state \<Rightarrow> state \<Rightarrow> bool" where
  "extends st st' \<longleftrightarrow>
     (\<exists>res. results st' = results st @ [res]) \<and>
     successCount st' + errorCount st' = successCount st + errorCount st + 1"

section \<open>The cleaned name, character by character\<close>


section \<open>Environments and data used in the examples\<close>

text \<open>
  A remote side whose mutation always succeeds: an object with a \<^verbatim>\<open>json\<close>
  function that yields a payload without errors. The snippet returns its argument.
\<close>

definition succeeding :: env where
  "succeeding =
     \<lparr>transformFunc = (\<lambda>i source name. Normal name),
      graphql = (\<lambda>i vars. Normal (WithJson (Normal
         \<lparr>gqlErrors = None,
          discountCodeBasicCreate = Some \<lparr>userErrors = Some []\<rparr>\<rparr>))),
      dateNow = (\<lambda>i. 1700000000000 + i),
      toISOString = (\<lambda>i. ''2023-11-14T22:13:20.000Z'')\<rparr>"

text \<open>The same, with a snippet that returns the value \<open>v\<close> whatever the name.\<close>

definition returning :: "jsvalue \<Rightarrow> env" where
  "returning v = succeeding\<lparr>transformFunc := (\<lambda>i source name. Normal v)\<rparr>"

text \<open>The same, with a snippet that throws \<open>t\<close> whatever the name.\<close>

definition throwing :: "thrown \<Rightarrow> env" where
  "throwing t = succeeding\<lparr>transformFunc := (\<lambda>i source name. Throw t)\<rparr>"

text \<open>A remote side that answers every call with a top-level error.\<close>

definition throttled :: env where
  "throttled =
     succeeding\<lparr>graphql := (\<lambda>i vars. Normal (WithJson (Normal
        \<lparr>gqlErrors = Some [''Throttled''], discountCodeBasicCreate = None\<rparr>)))\<rparr>"

text \<open>A remote side that rejects every code with a field-level error.\<close>

definition rejecting :: env where
  "rejecting =
     succeeding\<lparr>graphql := (\<lambda>i vars. Normal (WithJson (Normal
        \<lparr>gqlErrors = None,
         discountCodeBasicCreate =
           Some \<lparr>userErrors = Some [(Some ''code'', ''Code must be unique'')]\<rparr>\<rparr>)))\<rparr>"

text \<open>Two original rows with a further column, and results for the first of them.\<close>

definition alice :: row where
  "alice = [(''name'', ''Alice''), (''price'', ''25.00''), (''backing_tier'', ''Gold'')]"

definition bob :: row where
  "bob = [(''name'', ''Bob''), (''price'', ''oops''), (''backing_tier'', ''Silver'')]"

definition aliceResult :: "string DiscountResult" where
  "aliceResult =
     \<lparr>row = 1, customer = ''Alice'', status = success,
      discountCode = Some ''KICKSTARTER_ALICE_1700000000000'', amount = Some (Finite 25),
      message = ''Discount code created successfully''\<rparr>"

definition freeResult :: "string DiscountResult" where
  "freeResult =
     \<lparr>row = 1, customer = ''Alice'', status = success,
      discountCode = Some ''KICKSTARTER_ALICE_1700000000000'', amount = Some (Finite 0),
      message = ''Discount code created successfully''\<rparr>"

section \<open>Evaluation\<close>

lemmas round_defs = toBinary64_def floorLog2_def scale2_def bitLength.simps Let_def

lemmas parse_defs = parseFloat_def unsignedLiteral_def exponentPart_def round_defs
  digitsValue_def digitValue_def isDigit_def isWhiteSpace_def isNaN_def negate_def

lemmas code_defs = mkDiscountCode_def cleanName_def toUpperCase_def upperUnit_def
  isUpperOrDigit_def isDigit_def showNat.simps accentedCapitals_def

lemmas gen_defs = generateDiscountCodes_def run_def initial_def processRow_def synthesize_def
  callRemote_def readBody_def apiError_def pushError_def pushSuccess_def perform_def getCell_def
  objectPrototypeNames_def truthy_def trim_def Let_def

lemmas env_defs = succeeding_def returning_def throwing_def throttled_def rejecting_def

text \<open>
  Rounding: 25 and a half are values of binary64; a tenth is not, and is rounded up; the
  odd integer after \<open>2 ^ 53\<close> lies between two values and goes to the one with the
  even significand.
\<close>

lemma toBinary64_examples:
  "toBinary64 2500 100 = Finite 25"
  "toBinary64 5 10 = Finite (1 / 2)"
  "toBinary64 1 10 = Finite (3602879701896397 / 36028797018963968)"
  "toBinary64 9007199254740993 1 = Finite 9007199254740992"
  "toBinary64 9007199254740995 1 = Finite 9007199254740996"
  by (simp_all add: round_defs)

text \<open>A plain price needs no prefix; a sign, a fraction and an exponent are read.\<close>

lemma parseFloat_examples:
  "parseFloat ''25.00'' = Finite 25"
  "parseFloat ''  -1.5e2 GBP'' = Finite (- 150)"
  "parseFloat ''.5'' = Finite (1 / 2)"
  "parseFloat ''0.1'' = Finite (3602879701896397 / 36028797018963968)"
  "parseFloat ''.'' = NaN"
  "parseFloat [] = NaN"
  "parseFloat ''Infinity'' = PosInfinity"
  by (simp_all add: parse_defs)

text \<open>
  With the price written as U+00C2 U+00A3 and then \<open>25.00\<close>, the two-row scenario runs as
  intended: the first row gets a code and the amount 25, the second is rejected.
\<close>

lemma scenario_with_matching_prefix:
  "generateDiscountCodes succeeding
     [[(''name'', ''Alice''), (''price'', CHR 0xC2 # CHR 0xA3 # ''25.00'')],
      [(''name'', ''Bob''), (''price'', ''oops'')]] ''name'' ''price'' '''' =
   Inr \<lparr>report_results =
          [\<lparr>row = 1, customer = VString ''Alice'', status = success,
            discountCode = Some ''KICKSTARTER_ALICE_1700000000000'',
            amount = Some (Finite 25), message = ''Discount code created successfully''\<rparr>,
           \<lparr>row = 2, customer = VString ''Bob'', status = error, discountCode = None,
            amount = None, message = ''Invalid name or price''\<rparr>],
        report_summary = \<lparr>total = 2, successful = 1, errors = 1\<rparr>\<rparr>"
  by (simp add: gen_defs parse_defs code_defs env_defs)

text \<open>
  A call that is answered with a field-level error is followed by the delay of 600 ms, as
  a call that succeeds is.
\<close>

lemma delay_after_user_errors:
  "run rejecting [[(''name'', ''Alice''), (''price'', ''25.00'')]] ''name'' ''price'' [] =
   Inr \<lparr>results =
          [\<lparr>row = 1, customer = VString ''Alice'', status = error, discountCode = None,
            amount = None, message = ''code: Code must be unique''\<rparr>],
        successCount = 0, errorCount = 1,
        effects =
          [Graphql \<lparr>title = ''Kickstarter Backer - Alice'',
                    code = ''KICKSTARTER_ALICE_1700000000000'',
                    startsAt = ''2023-11-14T22:13:20.000Z'',
                    discountAmount = Finite 25\<rparr>,
           SetTimeout 600]\<rparr>"
  by (simp add: gen_defs parse_defs code_defs env_defs)

lemma delay_after_success:
  "run succeeding [[(''name'', ''Alice''), (''price'', ''25.00'')]] ''name'' ''price'' [] =
   Inr \<lparr>results =
          [\<lparr>row = 1, customer = VString ''Alice'', status = success,
            discountCode = Some ''KICKSTARTER_ALICE_1700000000000'',
            amount = Some (Finite 25), message = ''Discount code created successfully''\<rparr>],
        successCount = 1, errorCount = 0,
        effects =
          [Graphql \<lparr>title = ''Kickstarter Backer - Alice'',
                    code = ''KICKSTARTER_ALICE_1700000000000'',
                    startsAt = ''2023-11-14T22:13:20.000Z'',
                    discountAmount = Finite 25\<rparr>,
           SetTimeout 600]\<rparr>"
  by (simp add: gen_defs parse_defs code_defs env_defs)

text \<open>
  A name column that the row does not own but inherits: with a price that is read as NaN
  the inherited member is stored as the customer; with a valid price it has no
  \<^verbatim>\<open>toUpperCase\<close> and the run aborts.
\<close>

lemma inherited_name_column:
  "run succeeding [[(''price'', ''oops'')]] ''constructor'' ''price'' [] =
   Inr \<lparr>results =
          [\<lparr>row = 1, customer = VObject, status = error, discountCode = None,
            amount = None, message = ''Invalid name or price''\<rparr>],
        successCount = 0, errorCount = 1, effects = []\<rparr>"
  "run succeeding [[(''price'', ''5'')]] ''constructor'' ''price'' [] = Inl TypeError"
  by (simp_all add: gen_defs parse_defs env_defs)

section \<open>The loop appends one result for each row\<close>

lemma pushError_fields [simp]:
  "results (pushError st i n m) =
     results st @ [\<lparr>row = int i + 1, customer = n, status = error, discountCode = None,
                    amount = None, message = m\<rparr>]"
  "successCount (pushError st i n m) = successCount st"
  "errorCount (pushError st i n m) = errorCount st + 1"
  "effects (pushError st i n m) = effects st"
  by (simp_all add: pushError_def)

lemma pushSuccess_fields [simp]:
  "results (pushSuccess st i n dc p) =
     results st @ [\<lparr>row = int i + 1, customer = VString n, status = success,
                    discountCode = Some dc, amount = Some p,
                    message = ''Discount code created successfully''\<rparr>]"
  "successCount (pushSuccess st i n dc p) = successCount st + 1"
  "errorCount (pushSuccess st i n dc p) = errorCount st"
  "effects (pushSuccess st i n dc p) = effects st"
  by (simp_all add: pushSuccess_def)

lemma perform_fields [simp]:
  "results (perform st e) = results st"
  "successCount (perform st e) = successCount st"
  "errorCount (perform st e) = errorCount st"
  "effects (perform st e) = effects st @ [e]"
  by (simp_all add: perform_def)

lemma readBody_extends:
  assumes "results st1 = results st" "successCount st1 = successCount st"
    "errorCount st1 = errorCount st"
  shows "extends st (readBody st1 i n dc p b)"
  using assms by (auto simp: readBody_def extends_def split: option.splits)

lemma apiError_extends:
  assumes "apiError st1 i n t = Inr st'" "results st1 = results st"
    "successCount st1 = successCount st" "errorCount st1 = errorCount st"
  shows "extends st st'"
  using assms by (auto simp: apiError_def extends_def split: thrown.splits)

lemma callRemote_extends:
  assumes "callRemote ev st i n dc p = Inr st'"
  shows "extends st st'"
  using assms
  by (auto simp: callRemote_def Let_def extends_def[of st "pushError _ _ _ _"]
      split: completion.splits response.splits option.splits
      intro!: readBody_extends elim!: apiError_extends)

lemma synthesize_extends:
  "synthesize ev st i v p = Inr st' \<Longrightarrow> extends st st'"
  by (auto simp: synthesize_def split: jsvalue.splits dest: callRemote_extends)

lemma processRow_extends:
  "processRow ev nc pc tf i r st = Inr st' \<Longrightarrow> extends st st'"
  by (auto simp: processRow_def Let_def extends_def[of st "pushError _ _ _ _"]
      split: jsvalue.splits if_splits completion.splits thrown.splits
      dest: synthesize_extends)

lemma loop_counts:
  "loop ev nc pc tf i rs st = Inr st' \<Longrightarrow>
   length (results st') = length (results st) + length rs \<and>
   successCount st' + errorCount st' = successCount st + errorCount st + length rs"
proof (induction rs arbitrary: i st)
  case Nil
  then show ?case by simp
next
  case (Cons r rs)
  from Cons.prems obtain st1 where
    step: "processRow ev nc pc tf i r st = Inr st1" and
    rest: "loop ev nc pc tf (i + 1) rs st1 = Inr st'"
    by (auto split: sum.splits)
  from processRow_extends [OF step] Cons.IH [OF rest] show ?case
    by (auto simp: extends_def)
qed

text \<open>
  Whenever the function returns a report, the report has one result for each row and its
  counts add up.
\<close>

lemma generate_counts:
  assumes "generateDiscountCodes ev data nc pc tf = Inr rep"
  shows "length (report_results rep) = length data \<and>
         total (report_summary rep) = length data \<and>
         successful (report_summary rep) + errors (report_summary rep) = length data"
  using assms loop_counts [of ev nc pc tf 0 data initial]
  by (auto simp: generateDiscountCodes_def run_def initial_def split: sum.splits)

text \<open>
  A property that every step of the loop gives the result it appends holds, in a run that
  returns, of the result at the position of each row.
\<close>

lemma loop_results:
  assumes step: "\<And>i r st st'. processRow ev nc pc tf i r st = Inr st' \<Longrightarrow>
                   \<exists>res. results st' = results st @ [res] \<and> P i r res"
    and run: "loop ev nc pc tf i rs st = Inr st'"
  shows "\<exists>ress. results st' = results st @ ress \<and> length ress = length rs \<and>
           (\<forall>k<length rs. P (i + k) (rs ! k) (ress ! k))"
  using run
proof (induction rs arbitrary: i st)
  case Nil
  then show ?case by simp
next
  case (Cons r rs)
  from Cons.prems obtain st1 where
    first: "processRow ev nc pc tf i r st = Inr st1" and
    rest: "loop ev nc pc tf (i + 1) rs st1 = Inr st'"
    by (auto split: sum.splits)
  from step [OF first] obtain res where
    res: "results st1 = results st @ [res]" "P i r res" by blast
  from Cons.IH [OF rest] obtain ress where
    ress: "results st' = results st1 @ ress" "length ress = length rs"
      "\<forall>k<length rs. P (i + 1 + k) (rs ! k) (ress ! k)" by blast
  have "\<forall>k<length (r # rs). P (i + k) ((r # rs) ! k) ((res # ress) ! k)"
  proof (intro allI impI)
    fix k assume "k < length (r # rs)"
    then show "P (i + k) ((r # rs) ! k) ((res # ress) ! k)"
      using res(2) ress(3) by (cases k) auto
  qed
  with res(1) ress(1,2) show ?case
    by (intro exI [of _ "res # ress"]) simp
qed

lemma trim_nonempty: "trim tf \<noteq> [] \<Longrightarrow> tf \<noteq> []"
  by (auto simp: trim_def)

text \<open>
  The step of the loop on a row whose price cell is a text and whose name is falsy or
  whose price is read as NaN: one error result, no effect on the outside, and the loop
  goes on.
\<close>

lemma invalid_row_recorded:
  assumes "getCell r priceColumn = VString cell"
    and "\<not> truthy (getCell r nameColumn) \<or>
         isNaN (parseFloat (replace [CHR 0xC2, CHR 0xA3] [] cell))"
  shows "\<exists>st'. processRow ev nameColumn priceColumn tf i r st = Inr st' \<and>
           (\<exists>c. results st' = results st @
                  [\<lparr>row = int i + 1, customer = c, status = error, discountCode = None,
                    amount = None, message = ''Invalid name or price''\<rparr>]) \<and>
           errorCount st' = errorCount st + 1 \<and> successCount st' = successCount st \<and>
           effects st' = effects st \<and>
           loop ev nameColumn priceColumn tf i (r # rs) st =
             loop ev nameColumn priceColumn tf (i + 1) rs st'"
  using assms by (auto simp: processRow_def Let_def)

text \<open>
  The step of the loop on a valid row when the snippet throws a value that has a message:
  one error result with the value of the name cell, no effect on the outside.
\<close>

lemma transform_throw_recorded:
  assumes "truthy (getCell r nameColumn)"
    and "getCell r priceColumn = VString cell"
    and "\<not> isNaN (parseFloat (replace [CHR 0xC2, CHR 0xA3] [] cell))"
    and "trim tf \<noteq> []"
    and "transformFunc ev i tf (getCell r nameColumn) = Throw (Thrown m)"
  shows "\<exists>st'. processRow ev nameColumn priceColumn tf i r st = Inr st' \<and>
           results st' = results st @
             [\<lparr>row = int i + 1, customer = getCell r nameColumn, status = error,
               discountCode = None, amount = None,
               message = ''Transform function error: '' @ m\<rparr>] \<and>
           errorCount st' = errorCount st + 1 \<and> successCount st' = successCount st \<and>
           effects st' = effects st \<and>
           loop ev nameColumn priceColumn tf i (r # rs) st =
             loop ev nameColumn priceColumn tf (i + 1) rs st'"
  using assms trim_nonempty [of tf] by (auto simp: processRow_def Let_def)

lemma processRow_invalid_result:
  assumes "processRow ev nc pc tf i r st = Inr st'"
  shows "\<exists>res. results st' = results st @ [res] \<and>
     ((\<not> truthy (getCell r nc) \<longrightarrow>
        res = \<lparr>row = int i + 1, customer = VString ''Unknown'', status = error,
               discountCode = None, amount = None, message = ''Invalid name or price''\<rparr>) \<and>
      (\<forall>cell. truthy (getCell r nc) \<and> getCell r pc = VString cell \<and>
         isNaN (parseFloat (replace [CHR 0xC2, CHR 0xA3] [] cell)) \<longrightarrow>
        res = \<lparr>row = int i + 1, customer = getCell r nc, status = error,
               discountCode = None, amount = None, message = ''Invalid name or price''\<rparr>))"
proof -
  from assms obtain cell where cell: "getCell r pc = VString cell"
    by (auto simp: processRow_def Let_def split: jsvalue.splits)
  show ?thesis
  proof (cases "\<not> truthy (getCell r nc) \<or>
      isNaN (parseFloat (replace [CHR 0xC2, CHR 0xA3] [] cell))")
    case True
    with cell assms show ?thesis by (auto simp: processRow_def Let_def)
  next
    case False
    from processRow_extends [OF assms] obtain res where "results st' = results st @ [res]"
      by (auto simp: extends_def)
    with False cell show ?thesis by auto
  qed
qed

section \<open>The decimal text and the cleaned name\<close>














section \<open>The characters of a discount code\<close>










section \<open>The rows of the exports\<close>

lemma foldl_update_None:
  "foldl (\<lambda>m res. m(row res - 1 \<mapsto> res)) m rs k = None \<longleftrightarrow>
   m k = None \<and> (\<forall>res\<in>set rs. row res - 1 \<noteq> k)"
  by (induction rs arbitrary: m) auto

lemma resultMap_None_iff:
  "resultMap rs (int i) = None \<longleftrightarrow> (\<forall>res\<in>set rs. row res \<noteq> int i + 1)"
  unfolding resultMap_def foldl_update_None by auto

lemma length_originalValues [simp]: "length (originalValues hs r) = length hs"
  by (simp add: originalValues_def)

lemma length_newValues [simp]: "length (newValues nts stamp result) = 5"
  by (simp add: newValues_def Let_def)

lemma newValues_None:
  "newValues nts stamp None =
     [quoted [], quoted [], quoted ''not_processed'', quoted ''Not processed'', quoted stamp]"
  by (simp add: newValues_def escapeQuotes_def)

lemma amountText_zero: "amountText nts (Some (Finite 0)) = []"
  by (simp add: amountText_def truthyNumber_def)

text \<open>The text of a joined list, line by line and cell by cell.\<close>

lemma join_step: "ys \<noteq> [] \<Longrightarrow> join sep (x # ys) = x @ sep @ join sep ys"
  by (cases ys) simp_all

lemma join_lines: "join sep (x # xs) = x @ concat (map (\<lambda>y. sep @ y) xs)"
proof (induction xs arbitrary: x)
  case Nil
  show ?case by simp
next
  case (Cons y ys)
  then show ?case by simp
qed

lemma join_cells: "join sep (xs @ y # ys) = concat (map (\<lambda>x. x @ sep) xs) @ join sep (y # ys)"
proof (induction xs)
  case Nil
  show ?case by simp
next
  case (Cons x xs)
  have "join sep ((x # xs) @ y # ys) = x @ sep @ join sep (xs @ y # ys)"
    using join_step [of "xs @ y # ys" sep x] by simp
  with Cons.IH show ?case by simp
qed




section \<open>The claims\<close>

text \<open>
  C1. The claim: for every list of rows the function returns a report with one result per
  row and \<open>successful + errors = total = length results = length rows\<close>, and the batch
  never aborts early. The counts do agree in every report that is returned
  (\<open>generate_counts\<close>). But the code aborts on a row that has no cell in the price
  column: \<^verbatim>\<open>row[priceColumn].replace\<close> is called on \<^verbatim>\<open>undefined\<close> before the
  row is validated, outside every \<^verbatim>\<open>try\<close>, so the function throws and returns no
  report, whatever the environment.
\<close>

theorem generate_aborts_on_missing_price:
  "generateDiscountCodes ev [[(''name'', ''Alice'')]] ''name'' ''price'' '''' = Inl TypeError"
  by (simp add: gen_defs)

text \<open>
  C2. The claim: on the rows Alice with price U+00A3 \<open>25.00\<close> and Bob with price
  \<open>oops\<close>, without a transform, the summary is total 2, successful 1, errors 1 and
  Alice gets a code and the amount 25. The code removes the two-unit text U+00C2 U+00A3,
  which the price does not contain; \<open>parseFloat\<close> then meets the pound sign first and
  yields NaN, and Alice is rejected like Bob, whatever the remote side does.
\<close>

theorem scenario_rejects_pound_price:
  "generateDiscountCodes ev
     [[(''name'', ''Alice''), (''price'', CHR 0xA3 # ''25.00'')],
      [(''name'', ''Bob''), (''price'', ''oops'')]] ''name'' ''price'' '''' =
   Inr \<lparr>report_results =
          [\<lparr>row = 1, customer = VString ''Alice'', status = error, discountCode = None,
            amount = None, message = ''Invalid name or price''\<rparr>,
           \<lparr>row = 2, customer = VString ''Bob'', status = error, discountCode = None,
            amount = None, message = ''Invalid name or price''\<rparr>],
        report_summary = \<lparr>total = 2, successful = 0, errors = 2\<rparr>\<rparr>"
  by (simp add: gen_defs parse_defs)

text \<open>
  C3. The claim: every row whose name is empty or absent, or whose price is not a valid
  number, gets an error result \<open>Invalid name or price\<close>, without a remote call, and
  the loop advances. A row with an empty name and no cell in the price column gets no
  result: line 38 throws on the absent cell before line 42 validates the row, and the run
  ends with a TypeError. (For a row whose price cell is a text the step does what the
  claim says: \<open>invalid_row_recorded\<close>.)
\<close>

theorem missing_price_aborts_invalid_row:
  "run succeeding [[(''name'', [])]] ''name'' ''price'' [] = Inl TypeError"
  by (simp add: gen_defs)

text \<open>
  C4. The claim: a row whose transform snippet throws, or does not evaluate to a text, is
  recorded as an error \<open>Transform function error: ...\<close> with the original name, and
  the batch continues. With a snippet that has no \<^verbatim>\<open>return\<close> and so evaluates to
  \<^verbatim>\<open>undefined\<close>, and with one that returns an object without the methods of a text,
  line 72 throws outside every \<^verbatim>\<open>try\<close>; with one that throws \<^verbatim>\<open>null\<close>, the
  handler of line 58 throws when it reads the message. In all three the run of one valid
  row ends with a TypeError and no result. (A snippet that throws a value with a message
  is recorded as the claim says: \<open>transform_throw_recorded\<close>.)
\<close>

theorem non_string_transform_aborts:
  "run (returning VUndefined) [[(''name'', ''Alice''), (''price'', ''25.00'')]]
     ''name'' ''price'' ''name.trim()'' = Inl TypeError \<and>
   run (returning VObject) [[(''name'', ''Alice''), (''price'', ''25.00'')]]
     ''name'' ''price'' ''return Object.create(null)'' = Inl TypeError \<and>
   run (throwing ThrownNullish) [[(''name'', ''Alice''), (''price'', ''25.00'')]]
     ''name'' ''price'' ''throw null'' = Inl TypeError"
  by (simp add: gen_defs parse_defs env_defs isWhiteSpace_def)

text \<open>
  C5. The claim: the 600 ms delay follows every row for which a remote call was attempted,
  whether it ends in success or in error. In the code the delay is the last statement of
  the \<^verbatim>\<open>try\<close> block, and the branches for top-level errors, for a missing payload
  and for an unreadable reply leave the iteration with \<^verbatim>\<open>continue\<close> before it, as
  does the \<^verbatim>\<open>catch\<close> handler. Here the remote call is made and answered with a
  top-level error: the effects of the run are the call alone, with no delay after it,
  where the branch for field-level errors does sleep (\<open>delay_after_user_errors\<close>).
\<close>

theorem no_delay_after_graphql_errors:
  "run throttled [[(''name'', ''Alice''), (''price'', ''25.00'')]] ''name'' ''price'' '''' =
   Inr \<lparr>results =
          [\<lparr>row = 1, customer = VString ''Alice'', status = error, discountCode = None,
            amount = None, message = ''GraphQL errors: Throttled''\<rparr>],
        successCount = 0, errorCount = 1,
        effects =
          [Graphql \<lparr>title = ''Kickstarter Backer - Alice'',
                    code = ''KICKSTARTER_ALICE_1700000000000'',
                    startsAt = ''2023-11-14T22:13:20.000Z'',
                    discountAmount = Finite 25\<rparr>]\<rparr>"
  by (simp add: gen_defs parse_defs code_defs env_defs)



text \<open>
  C7, as amended. The full-merge export fails with \<open>No data provided for CSV export\<close>
  exactly when it is given no original row or no result, and returns a text otherwise.
  The successful-only export fails with \<open>No successful discount codes to export\<close>
  exactly when no result has the status \<open>success\<close> and a non-empty discount code,
  and returns a text when there is such a result and at least one original row. The
  summary-only export checks nothing: for no results it returns the header line.
\<close>

theorem export_failures:
  "(generateCSVWithCodes nts gen od rs = Inl (Error ''No data provided for CSV export'')) =
     (od = [] \<or> rs = []) \<and>
   (od \<noteq> [] \<and> rs \<noteq> [] \<longrightarrow> (\<exists>out. generateCSVWithCodes nts gen od rs = Inr out)) \<and>
   (generateSuccessfulCodesCSV nts od rs =
      Inl (Error ''No successful discount codes to export'')) =
     (\<forall>res\<in>set rs. \<not> isSuccessful res) \<and>
   ((\<exists>res\<in>set rs. isSuccessful res) \<and> od \<noteq> [] \<longrightarrow>
      (\<exists>out. generateSuccessfulCodesCSV nts od rs = Inr out)) \<and>
   generateSummaryCSV nts gen [] = join '','' (map quoted summaryHeaders)"
proof -
  have a: "(generateCSVWithCodes nts gen od rs = Inl (Error ''No data provided for CSV export'')) =
     (od = [] \<or> rs = [])"
    by (simp add: generateCSVWithCodes_def Let_def)
  have b: "od \<noteq> [] \<and> rs \<noteq> [] \<longrightarrow> (\<exists>out. generateCSVWithCodes nts gen od rs = Inr out)"
    by (simp add: generateCSVWithCodes_def Let_def)
  have c: "(generateSuccessfulCodesCSV nts od rs =
      Inl (Error ''No successful discount codes to export'')) =
     (\<forall>res\<in>set rs. \<not> isSuccessful res)"
    by (auto simp: generateSuccessfulCodesCSV_def Let_def filter_empty_conv split: list.splits)
  have d: "(\<exists>res\<in>set rs. isSuccessful res) \<and> od \<noteq> [] \<longrightarrow>
      (\<exists>out. generateSuccessfulCodesCSV nts od rs = Inr out)"
    by (auto simp: generateSuccessfulCodesCSV_def Let_def filter_empty_conv split: list.splits)
  have e: "generateSummaryCSV nts gen [] = join '','' (map quoted summaryHeaders)"
    by (simp add: generateSummaryCSV_def)
  from a b c d e show ?thesis by blast
qed

text \<open>
  C7, witness: one original row and its successful result give a text from both exports;
  without original rows the full merge fails, and without results the successful-only
  export fails.
\<close>

theorem export_failures_witness:
  "[alice] \<noteq> [] \<and> [aliceResult] \<noteq> [] \<and> isSuccessful aliceResult \<and>
   (\<exists>out. generateCSVWithCodes (\<lambda>n. ''25'') (\<lambda>i. ''T'') [alice] [aliceResult] = Inr out) \<and>
   (\<exists>out. generateSuccessfulCodesCSV (\<lambda>n. ''25'') [alice] [aliceResult] = Inr out) \<and>
   generateCSVWithCodes (\<lambda>n. ''25'') (\<lambda>i. ''T'') [] [aliceResult] =
     Inl (Error ''No data provided for CSV export'') \<and>
   generateSuccessfulCodesCSV (\<lambda>n. ''25'') [alice] [] =
     Inl (Error ''No successful discount codes to export'')"
proof -
  have h: "[alice] \<noteq> []" "[aliceResult] \<noteq> []" "isSuccessful aliceResult"
    by (simp_all add: isSuccessful_def aliceResult_def)
  then have s: "\<exists>res\<in>set [aliceResult]. isSuccessful res" by simp
  from export_failures [of "\<lambda>n. ''25''" "\<lambda>i. ''T''" "[alice]" "[aliceResult]"] h s
  have "\<exists>out. generateCSVWithCodes (\<lambda>n. ''25'') (\<lambda>i. ''T'') [alice] [aliceResult] = Inr out"
    and "\<exists>out. generateSuccessfulCodesCSV (\<lambda>n. ''25'') [alice] [aliceResult] = Inr out"
    by blast+
  moreover from export_failures [of "\<lambda>n. ''25''" "\<lambda>i. ''T''" "[]" "[aliceResult]"]
  have "generateCSVWithCodes (\<lambda>n. ''25'') (\<lambda>i. ''T'') [] [aliceResult] =
     Inl (Error ''No data provided for CSV export'')" by blast
  moreover from export_failures [of "\<lambda>n. ''25''" "\<lambda>i. ''T''" "[alice]" "[]"]
  have "generateSuccessfulCodesCSV (\<lambda>n. ''25'') [alice] [] =
     Inl (Error ''No successful discount codes to export'')" by simp
  ultimately show ?thesis using h by blast
qed

text \<open>
  C7, counterexample to the claim as it was stated (the summary-only export fails when
  given no results): for no results it returns the header line.
\<close>

theorem summary_of_no_results_is_header:
  \<open>generateSummaryCSV (\<lambda>n. []) (\<lambda>i. []) [] =
     ''"Row","Customer_Name","Discount_Code","Discount_Amount","Status","Message","Generated_At"''\<close>
  by (simp add: generateSummaryCSV_def summaryHeaders_def quoted_def)

text \<open>
  C8. For original rows and results that are both non-empty, the full-merge export is the
  header row and the data rows, joined by line feeds, the cells of each joined by commas.
  The header row has five cells more than the first original row has columns. There is
  one data row for each original row, in order: the data row at an index starts with the
  quoted values of the original row at that index and has five cells more; when no result
  has the row number of that index plus one, these five are the quoted empty text twice,
  \<open>not_processed\<close>, \<open>Not processed\<close> and the stamp.
\<close>

theorem full_merge_rows:
  assumes "originalData \<noteq> []" and "discountResults \<noteq> []"
  shows "generateCSVWithCodes nts gen originalData discountResults =
           Inr (join [CHR 0x0A] (map (join '','')
             (map quoted (newHeaders originalData) #
              map (dataCells nts gen originalData discountResults) [0 ..< length originalData])))
         \<and> length (map quoted (newHeaders originalData)) = length (keys (hd originalData)) + 5
         \<and> length (map (dataCells nts gen originalData discountResults)
              [0 ..< length originalData]) = length originalData
         \<and> (\<forall>i<length originalData.
               length (dataCells nts gen originalData discountResults i) =
                 length (keys (hd originalData)) + 5 \<and>
               take (length (keys (hd originalData)))
                 (dataCells nts gen originalData discountResults i) =
                 originalValues (keys (hd originalData)) (originalData ! i) \<and>
               ((\<forall>res\<in>set discountResults. row res \<noteq> int i + 1) \<longrightarrow>
                  drop (length (keys (hd originalData)))
                    (dataCells nts gen originalData discountResults i) =
                  [quoted [], quoted [], quoted ''not_processed'', quoted ''Not processed'',
                   quoted (gen i)]))"
proof -
  have out: "generateCSVWithCodes nts gen originalData discountResults =
           Inr (join [CHR 0x0A] (map (join '','')
             (map quoted (newHeaders originalData) #
              map (dataCells nts gen originalData discountResults) [0 ..< length originalData])))"
    using assms by (simp add: generateCSVWithCodes_def Let_def comp_def)
  have header: "length (map quoted (newHeaders originalData)) = length (keys (hd originalData)) + 5"
    by (simp add: newHeaders_def)
  have rows: "\<forall>i<length originalData.
               length (dataCells nts gen originalData discountResults i) =
                 length (keys (hd originalData)) + 5 \<and>
               take (length (keys (hd originalData)))
                 (dataCells nts gen originalData discountResults i) =
                 originalValues (keys (hd originalData)) (originalData ! i) \<and>
               ((\<forall>res\<in>set discountResults. row res \<noteq> int i + 1) \<longrightarrow>
                  drop (length (keys (hd originalData)))
                    (dataCells nts gen originalData discountResults i) =
                  [quoted [], quoted [], quoted ''not_processed'', quoted ''Not processed'',
                   quoted (gen i)])"
    by (simp add: dataCells_def resultMap_None_iff [symmetric] newValues_None)
  from out header rows show ?thesis by simp
qed

text \<open>
  C8, witness: the rows of Alice and Bob, with three columns each, and a result for Alice
  alone. The header has 8 cells, there are 2 data rows, and the new cells of Bob are the
  placeholders.
\<close>

theorem full_merge_rows_witness:
  "[alice, bob] \<noteq> [] \<and> [aliceResult] \<noteq> [] \<and>
   length (map quoted (newHeaders [alice, bob])) = 8 \<and>
   length (map (dataCells (\<lambda>n. ''25'') (\<lambda>i. ''T'') [alice, bob] [aliceResult])
     [0 ..< length [alice, bob]]) = 2 \<and>
   drop 3 (dataCells (\<lambda>n. ''25'') (\<lambda>i. ''T'') [alice, bob] [aliceResult] 1) =
     [quoted [], quoted [], quoted ''not_processed'', quoted ''Not processed'', quoted ''T'']"
proof -
  have h1: "[alice, bob] \<noteq> []" and h2: "[aliceResult] \<noteq> []" by simp_all
  from full_merge_rows [OF h1 h2, of "\<lambda>n. ''25''" "\<lambda>i. ''T''"]
  have "\<forall>i<length [alice, bob].
               length (dataCells (\<lambda>n. ''25'') (\<lambda>i. ''T'') [alice, bob] [aliceResult] i) =
                 length (keys (hd [alice, bob])) + 5 \<and>
               take (length (keys (hd [alice, bob])))
                 (dataCells (\<lambda>n. ''25'') (\<lambda>i. ''T'') [alice, bob] [aliceResult] i) =
                 originalValues (keys (hd [alice, bob])) ([alice, bob] ! i) \<and>
               ((\<forall>res\<in>set [aliceResult]. row res \<noteq> int i + 1) \<longrightarrow>
                  drop (length (keys (hd [alice, bob])))
                    (dataCells (\<lambda>n. ''25'') (\<lambda>i. ''T'') [alice, bob] [aliceResult] i) =
                  [quoted [], quoted [], quoted ''not_processed'', quoted ''Not processed'',
                   quoted ((\<lambda>i. ''T'') i)])"
    by blast
  moreover have "1 < length [alice, bob]" by simp
  ultimately have "(\<forall>res\<in>set [aliceResult]. row res \<noteq> int 1 + 1) \<longrightarrow>
      drop (length (keys (hd [alice, bob])))
        (dataCells (\<lambda>n. ''25'') (\<lambda>i. ''T'') [alice, bob] [aliceResult] 1) =
      [quoted [], quoted [], quoted ''not_processed'', quoted ''Not processed'', quoted ''T'']"
    by blast
  moreover have "\<forall>res\<in>set [aliceResult]. row res \<noteq> int 1 + 1"
    by (simp add: aliceResult_def)
  moreover have "length (keys (hd [alice, bob])) = 3"
    by (simp add: keys_def alice_def)
  ultimately have "drop 3 (dataCells (\<lambda>n. ''25'') (\<lambda>i. ''T'') [alice, bob] [aliceResult] 1) =
     [quoted [], quoted [], quoted ''not_processed'', quoted ''Not processed'', quoted ''T'']"
    by simp
  then show ?thesis by (simp add: newHeaders_def keys_def alice_def)
qed

text \<open>
  C9. In every run that returns a report, for every row: when the name cell is absent or
  empty, the result at the position of the row is the error result \<open>Invalid name or
  price\<close> with the customer \<open>Unknown\<close>; when the row has a non-empty name and its
  price is read as NaN, it is that error result with the name of the row as customer.
  When the name column is the name of a member that every object inherits, and the row
  has no cell of its own there, the value read is that member: it is neither absent nor
  empty, and with a price read as NaN it is what the error result holds as customer.
\<close>

theorem customer_of_invalid_row:
  assumes "generateDiscountCodes ev data nc pc tf = Inr rep" and "k < length data"
  shows "(getCell (data ! k) nc = VUndefined \<or> getCell (data ! k) nc = VString [] \<longrightarrow>
            report_results rep ! k =
              \<lparr>row = int k + 1, customer = VString ''Unknown'', status = error,
               discountCode = None, amount = None, message = ''Invalid name or price''\<rparr>) \<and>
         (\<forall>name cell. getCell (data ! k) nc = VString name \<and> name \<noteq> [] \<and>
            getCell (data ! k) pc = VString cell \<and>
            isNaN (parseFloat (replace [CHR 0xC2, CHR 0xA3] [] cell)) \<longrightarrow>
            report_results rep ! k =
              \<lparr>row = int k + 1, customer = VString name, status = error,
               discountCode = None, amount = None, message = ''Invalid name or price''\<rparr>) \<and>
         (\<forall>cell. getCell (data ! k) nc = VObject \<and>
            getCell (data ! k) pc = VString cell \<and>
            isNaN (parseFloat (replace [CHR 0xC2, CHR 0xA3] [] cell)) \<longrightarrow>
            report_results rep ! k =
              \<lparr>row = int k + 1, customer = VObject, status = error,
               discountCode = None, amount = None, message = ''Invalid name or price''\<rparr>)"
proof -
  from assms(1) obtain st where
    st: "loop ev nc pc tf 0 data initial = Inr st" and rep: "report_results rep = results st"
    by (auto simp: generateDiscountCodes_def run_def split: sum.splits)
  from loop_results [where P = "\<lambda>i r res.
      (\<not> truthy (getCell r nc) \<longrightarrow>
        res = \<lparr>row = int i + 1, customer = VString ''Unknown'', status = error,
               discountCode = None, amount = None, message = ''Invalid name or price''\<rparr>) \<and>
      (\<forall>cell. truthy (getCell r nc) \<and> getCell r pc = VString cell \<and>
         isNaN (parseFloat (replace [CHR 0xC2, CHR 0xA3] [] cell)) \<longrightarrow>
        res = \<lparr>row = int i + 1, customer = getCell r nc, status = error,
               discountCode = None, amount = None, message = ''Invalid name or price''\<rparr>)",
      OF processRow_invalid_result st]
  obtain ress where ress: "results st = ress" and
    all: "\<forall>k<length data. (\<not> truthy (getCell (data ! k) nc) \<longrightarrow>
        ress ! k = \<lparr>row = int k + 1, customer = VString ''Unknown'', status = error,
               discountCode = None, amount = None, message = ''Invalid name or price''\<rparr>) \<and>
      (\<forall>cell. truthy (getCell (data ! k) nc) \<and> getCell (data ! k) pc = VString cell \<and>
         isNaN (parseFloat (replace [CHR 0xC2, CHR 0xA3] [] cell)) \<longrightarrow>
        ress ! k = \<lparr>row = int k + 1, customer = getCell (data ! k) nc, status = error,
               discountCode = None, amount = None, message = ''Invalid name or price''\<rparr>)"
    by (auto simp: initial_def)
  from all assms(2) have
    falsy: "\<not> truthy (getCell (data ! k) nc) \<longrightarrow>
        ress ! k = \<lparr>row = int k + 1, customer = VString ''Unknown'', status = error,
               discountCode = None, amount = None, message = ''Invalid name or price''\<rparr>" and
    named: "\<forall>cell. truthy (getCell (data ! k) nc) \<and> getCell (data ! k) pc = VString cell \<and>
         isNaN (parseFloat (replace [CHR 0xC2, CHR 0xA3] [] cell)) \<longrightarrow>
        ress ! k = \<lparr>row = int k + 1, customer = getCell (data ! k) nc, status = error,
               discountCode = None, amount = None, message = ''Invalid name or price''\<rparr>"
    by blast+
  have a: "getCell (data ! k) nc = VUndefined \<or> getCell (data ! k) nc = VString [] \<longrightarrow>
            report_results rep ! k =
              \<lparr>row = int k + 1, customer = VString ''Unknown'', status = error,
               discountCode = None, amount = None, message = ''Invalid name or price''\<rparr>"
    using falsy rep ress by (auto simp: truthy_def)
  have b: "\<forall>name cell. getCell (data ! k) nc = VString name \<and> name \<noteq> [] \<and>
            getCell (data ! k) pc = VString cell \<and>
            isNaN (parseFloat (replace [CHR 0xC2, CHR 0xA3] [] cell)) \<longrightarrow>
            report_results rep ! k =
              \<lparr>row = int k + 1, customer = VString name, status = error,
               discountCode = None, amount = None, message = ''Invalid name or price''\<rparr>"
  proof (intro allI impI)
    fix name cell
    assume h: "getCell (data ! k) nc = VString name \<and> name \<noteq> [] \<and>
            getCell (data ! k) pc = VString cell \<and>
            isNaN (parseFloat (replace [CHR 0xC2, CHR 0xA3] [] cell))"
    then have "truthy (getCell (data ! k) nc)" by (simp add: truthy_def)
    with h named have "ress ! k = \<lparr>row = int k + 1, customer = getCell (data ! k) nc,
        status = error, discountCode = None, amount = None,
        message = ''Invalid name or price''\<rparr>" by blast
    with h rep ress show "report_results rep ! k =
              \<lparr>row = int k + 1, customer = VString name, status = error,
               discountCode = None, amount = None, message = ''Invalid name or price''\<rparr>"
      by simp
  qed
  have c: "\<forall>cell. getCell (data ! k) nc = VObject \<and>
            getCell (data ! k) pc = VString cell \<and>
            isNaN (parseFloat (replace [CHR 0xC2, CHR 0xA3] [] cell)) \<longrightarrow>
            report_results rep ! k =
              \<lparr>row = int k + 1, customer = VObject, status = error,
               discountCode = None, amount = None, message = ''Invalid name or price''\<rparr>"
  proof (intro allI impI)
    fix cell
    assume h: "getCell (data ! k) nc = VObject \<and>
            getCell (data ! k) pc = VString cell \<and>
            isNaN (parseFloat (replace [CHR 0xC2, CHR 0xA3] [] cell))"
    then have "truthy (getCell (data ! k) nc)" by (simp add: truthy_def)
    with h named have "ress ! k = \<lparr>row = int k + 1, customer = getCell (data ! k) nc,
        status = error, discountCode = None, amount = None,
        message = ''Invalid name or price''\<rparr>" by blast
    with h rep ress show "report_results rep ! k =
              \<lparr>row = int k + 1, customer = VObject, status = error,
               discountCode = None, amount = None, message = ''Invalid name or price''\<rparr>"
      by simp
  qed
  from a b c show ?thesis by blast
qed

text \<open>
  C9, witness: a run over a row with an empty name, a row of Bob with the price
  \<open>oops\<close> and a row without a name cell returns a report whose customers are
  \<open>Unknown\<close>, \<open>Bob\<close> and \<open>Unknown\<close>; with the name column \<open>constructor\<close>
  the customer of Bob is the inherited member.
\<close>

theorem customer_of_invalid_row_witness:
  "(\<exists>rep. generateDiscountCodes succeeding
       [[(''name'', []), (''price'', ''5'')], [(''name'', ''Bob''), (''price'', ''oops'')],
        [(''price'', ''7'')]]
       ''name'' ''price'' [] = Inr rep \<and>
     report_results rep ! 0 =
       \<lparr>row = 1, customer = VString ''Unknown'', status = error, discountCode = None,
        amount = None, message = ''Invalid name or price''\<rparr> \<and>
     report_results rep ! 1 =
       \<lparr>row = 2, customer = VString ''Bob'', status = error, discountCode = None,
        amount = None, message = ''Invalid name or price''\<rparr> \<and>
     report_results rep ! 2 =
       \<lparr>row = 3, customer = VString ''Unknown'', status = error, discountCode = None,
        amount = None, message = ''Invalid name or price''\<rparr>) \<and>
   (\<exists>rep. generateDiscountCodes succeeding [[(''name'', ''Bob''), (''price'', ''oops'')]]
       ''constructor'' ''price'' [] = Inr rep \<and>
     report_results rep ! 0 =
       \<lparr>row = 1, customer = VObject, status = error, discountCode = None,
        amount = None, message = ''Invalid name or price''\<rparr>)"
proof -
  obtain rep where run: "generateDiscountCodes succeeding
       [[(''name'', []), (''price'', ''5'')], [(''name'', ''Bob''), (''price'', ''oops'')],
        [(''price'', ''7'')]]
       ''name'' ''price'' [] = Inr rep"
    by (simp add: gen_defs parse_defs)
  from customer_of_invalid_row [OF run, of 0]
  have first: "report_results rep ! 0 =
       \<lparr>row = 1, customer = VString ''Unknown'', status = error, discountCode = None,
        amount = None, message = ''Invalid name or price''\<rparr>"
    by (simp add: getCell_def)
  from customer_of_invalid_row [OF run, of 1]
  have second: "report_results rep ! 1 =
       \<lparr>row = 2, customer = VString ''Bob'', status = error, discountCode = None,
        amount = None, message = ''Invalid name or price''\<rparr>"
    by (simp add: getCell_def parse_defs)
  from customer_of_invalid_row [OF run, of 2]
  have third: "report_results rep ! 2 =
       \<lparr>row = 3, customer = VString ''Unknown'', status = error, discountCode = None,
        amount = None, message = ''Invalid name or price''\<rparr>"
    by (simp add: getCell_def objectPrototypeNames_def)
  obtain rep' where run': "generateDiscountCodes succeeding
       [[(''name'', ''Bob''), (''price'', ''oops'')]] ''constructor'' ''price'' [] = Inr rep'"
    by (simp add: gen_defs parse_defs)
  from customer_of_invalid_row [OF run', of 0]
  have inherited: "report_results rep' ! 0 =
       \<lparr>row = 1, customer = VObject, status = error, discountCode = None,
        amount = None, message = ''Invalid name or price''\<rparr>"
    by (simp add: getCell_def objectPrototypeNames_def parse_defs)
  from run first second third run' inherited show ?thesis by blast
qed

text \<open>
  C10. For original rows and results that are both non-empty, the text of the full-merge
  export is the header line followed, for each original row in order, by a line feed and
  the line of that row; the header of the second new column is \<open>Discount_Amount\<close>;
  and the line of an original row that is matched to a result whose amount is 0 is the
  original cells, each followed by a comma, then the quoted code, then \<^verbatim>\<open>""\<close> in
  the amount column, then the status, the message and the stamp. The text of the
  summary-only export is the header line followed, for each result in order, by a line
  feed and the line of that result; the fourth header is \<open>Discount_Amount\<close>; and the
  line of a result whose amount is 0 is the row number, the customer, the code, then
  \<^verbatim>\<open>""\<close> in the amount column, then the status, the message and the stamp. All
  this holds whatever the conversion of numbers to text gives for 0.
\<close>

theorem zero_amount_rendered_empty:
  "(originalData \<noteq> [] \<and> discountResults \<noteq> [] \<longrightarrow>
      generateCSVWithCodes nts gen originalData discountResults =
        Inr (join '','' (map quoted (newHeaders originalData)) @
             concat (map (\<lambda>i. CHR 0x0A #
                            join '','' (dataCells nts gen originalData discountResults i))
                       [0 ..< length originalData])) \<and>
      newHeaders originalData ! (length (keys (hd originalData)) + 1) = ''Discount_Amount'' \<and>
      (\<forall>i res. i < length originalData \<and> resultMap discountResults (int i) = Some res \<and>
         amount res = Some (Finite 0) \<longrightarrow>
         dataCells nts gen originalData discountResults i !
           (length (keys (hd originalData)) + 1) = quoted [] \<and>
         join '','' (dataCells nts gen originalData discountResults i) =
           concat (map (\<lambda>c. c @ '','')
                     (originalValues (keys (hd originalData)) (originalData ! i))) @
           quoted (case discountCode res of None \<Rightarrow> [] | Some c \<Rightarrow> c) @ '','' @
           quoted [] @ '','' @
           quoted (statusText (status res)) @ '','' @
           quoted (escapeQuotes (if message res = [] then ''Not processed''
                                 else message res)) @ '','' @
           quoted (gen i))) \<and>
   generateSummaryCSV nts gen discountResults =
     join '','' (map quoted summaryHeaders) @
     concat (map (\<lambda>j. CHR 0x0A #
                    join '','' (summaryCells nts (gen j) (discountResults ! j)))
               [0 ..< length discountResults]) \<and>
   summaryHeaders ! 3 = ''Discount_Amount'' \<and>
   (\<forall>j. j < length discountResults \<and> amount (discountResults ! j) = Some (Finite 0) \<longrightarrow>
      summaryCells nts (gen j) (discountResults ! j) ! 3 = quoted [] \<and>
      join '','' (summaryCells nts (gen j) (discountResults ! j)) =
        quoted (escapeQuotes (showInt (row (discountResults ! j)))) @ '','' @
        quoted (escapeQuotes (customer (discountResults ! j))) @ '','' @
        quoted (escapeQuotes (case discountCode (discountResults ! j) of
                                None \<Rightarrow> [] | Some c \<Rightarrow> c)) @ '','' @
        quoted [] @ '','' @
        quoted (escapeQuotes (statusText (status (discountResults ! j)))) @ '','' @
        quoted (escapeQuotes (message (discountResults ! j))) @ '','' @
        quoted (escapeQuotes (gen j)))"
proof -
  have full: "originalData \<noteq> [] \<and> discountResults \<noteq> [] \<longrightarrow>
      generateCSVWithCodes nts gen originalData discountResults =
        Inr (join '','' (map quoted (newHeaders originalData)) @
             concat (map (\<lambda>i. CHR 0x0A #
                            join '','' (dataCells nts gen originalData discountResults i))
                       [0 ..< length originalData]))"
    by (simp add: generateCSVWithCodes_def Let_def join_lines comp_def)
  have header: "newHeaders originalData ! (length (keys (hd originalData)) + 1) =
      ''Discount_Amount''"
    by (simp add: newHeaders_def nth_append)
  have cell: "\<forall>i res. i < length originalData \<and>
         resultMap discountResults (int i) = Some res \<and> amount res = Some (Finite 0) \<longrightarrow>
         dataCells nts gen originalData discountResults i !
           (length (keys (hd originalData)) + 1) = quoted []"
    by (simp add: dataCells_def newValues_def Let_def nth_append amountText_zero)
  have line: "\<forall>i res. i < length originalData \<and>
         resultMap discountResults (int i) = Some res \<and> amount res = Some (Finite 0) \<longrightarrow>
         join '','' (dataCells nts gen originalData discountResults i) =
           concat (map (\<lambda>c. c @ '','')
                     (originalValues (keys (hd originalData)) (originalData ! i))) @
           quoted (case discountCode res of None \<Rightarrow> [] | Some c \<Rightarrow> c) @ '','' @
           quoted [] @ '','' @
           quoted (statusText (status res)) @ '','' @
           quoted (escapeQuotes (if message res = [] then ''Not processed''
                                 else message res)) @ '','' @
           quoted (gen i)"
    by (simp add: dataCells_def newValues_def Let_def join_cells amountText_zero)
  have summary: "generateSummaryCSV nts gen discountResults =
     join '','' (map quoted summaryHeaders) @
     concat (map (\<lambda>j. CHR 0x0A #
                    join '','' (summaryCells nts (gen j) (discountResults ! j)))
               [0 ..< length discountResults])"
    by (simp add: generateSummaryCSV_def Let_def join_lines comp_def)
  have header': "summaryHeaders ! 3 = ''Discount_Amount''"
    by (simp add: summaryHeaders_def)
  have cell': "\<forall>j. j < length discountResults \<and>
      amount (discountResults ! j) = Some (Finite 0) \<longrightarrow>
      summaryCells nts (gen j) (discountResults ! j) ! 3 = quoted [] \<and>
      join '','' (summaryCells nts (gen j) (discountResults ! j)) =
        quoted (escapeQuotes (showInt (row (discountResults ! j)))) @ '','' @
        quoted (escapeQuotes (customer (discountResults ! j))) @ '','' @
        quoted (escapeQuotes (case discountCode (discountResults ! j) of
                                None \<Rightarrow> [] | Some c \<Rightarrow> c)) @ '','' @
        quoted [] @ '','' @
        quoted (escapeQuotes (statusText (status (discountResults ! j)))) @ '','' @
        quoted (escapeQuotes (message (discountResults ! j))) @ '','' @
        quoted (escapeQuotes (gen j))"
    by (simp add: summaryCells_def amountText_zero escapeQuotes_def)
  from full header cell line summary header' cell' show ?thesis by blast
qed

text \<open>
  C10, witness: the row of Alice and her result with the amount 0, under a conversion of
  numbers that gives \<open>0\<close> for 0. Both exports print \<^verbatim>\<open>""\<close> in the column
  \<open>Discount_Amount\<close>.
\<close>

theorem zero_amount_rendered_empty_witness:
  \<open>[alice] \<noteq> [] \<and> [freeResult] \<noteq> [] \<and> 0 < length [alice] \<and>
   resultMap [freeResult] (int 0) = Some freeResult \<and>
   amount freeResult = Some (Finite 0) \<and>
   generateCSVWithCodes (\<lambda>n. ''0'') (\<lambda>i. ''T'') [alice] [freeResult] =
     Inr (''"name","price","backing_tier","Discount_Code","Discount_Amount",'' @
          ''"Generation_Status","Generation_Message","Generated_At"'' @ [CHR 0x0A] @
          ''"Alice","25.00","Gold","KICKSTARTER_ALICE_1700000000000","","success",'' @
          ''"Discount code created successfully","T"'') \<and>
   generateSummaryCSV (\<lambda>n. ''0'') (\<lambda>i. ''T'') [freeResult] =
     ''"Row","Customer_Name","Discount_Code","Discount_Amount","Status","Message",'' @
     ''"Generated_At"'' @ [CHR 0x0A] @
     ''"1","Alice","KICKSTARTER_ALICE_1700000000000","","success",'' @
     ''"Discount code created successfully","T"''\<close>
proof -
  have h: "[alice] \<noteq> []" "[freeResult] \<noteq> []" "0 < length [alice]"
    "resultMap [freeResult] (int 0) = Some freeResult"
    "amount freeResult = Some (Finite 0)"
    by (simp_all add: resultMap_def freeResult_def)
  note all = zero_amount_rendered_empty [of "[alice]" "[freeResult]" "\<lambda>n. ''0''" "\<lambda>i. ''T''"]
  from all h have full: "generateCSVWithCodes (\<lambda>n. ''0'') (\<lambda>i. ''T'') [alice] [freeResult] =
      Inr (join '','' (map quoted (newHeaders [alice])) @
           concat (map (\<lambda>i. CHR 0x0A #
                          join '','' (dataCells (\<lambda>n. ''0'') (\<lambda>i. ''T'') [alice] [freeResult] i))
                     [0 ..< length [alice]]))"
    by blast
  from all h have "\<forall>i res. i < length [alice] \<and> resultMap [freeResult] (int i) = Some res \<and>
         amount res = Some (Finite 0) \<longrightarrow>
         join '','' (dataCells (\<lambda>n. ''0'') (\<lambda>i. ''T'') [alice] [freeResult] i) =
           concat (map (\<lambda>c. c @ '','') (originalValues (keys (hd [alice])) ([alice] ! i))) @
           quoted (case discountCode res of None \<Rightarrow> [] | Some c \<Rightarrow> c) @ '','' @
           quoted [] @ '','' @
           quoted (statusText (status res)) @ '','' @
           quoted (escapeQuotes (if message res = [] then ''Not processed''
                                 else message res)) @ '','' @
           quoted ((\<lambda>i. ''T'') i)"
    by blast
  with h have line: "join '','' (dataCells (\<lambda>n. ''0'') (\<lambda>i. ''T'') [alice] [freeResult] 0) =
           concat (map (\<lambda>c. c @ '','') (originalValues (keys (hd [alice])) ([alice] ! 0))) @
           quoted (case discountCode freeResult of None \<Rightarrow> [] | Some c \<Rightarrow> c) @ '','' @
           quoted [] @ '','' @
           quoted (statusText (status freeResult)) @ '','' @
           quoted (escapeQuotes (if message freeResult = [] then ''Not processed''
                                 else message freeResult)) @ '','' @
           quoted ''T''"
    by blast
  from all have summary: "generateSummaryCSV (\<lambda>n. ''0'') (\<lambda>i. ''T'') [freeResult] =
     join '','' (map quoted summaryHeaders) @
     concat (map (\<lambda>j. CHR 0x0A #
                    join '','' (summaryCells (\<lambda>n. ''0'') ((\<lambda>i. ''T'') j) ([freeResult] ! j)))
               [0 ..< length [freeResult]])"
    by blast
  from all have "\<forall>j. j < length [freeResult] \<and> amount ([freeResult] ! j) = Some (Finite 0) \<longrightarrow>
      join '','' (summaryCells (\<lambda>n. ''0'') ((\<lambda>i. ''T'') j) ([freeResult] ! j)) =
        quoted (escapeQuotes (showInt (row ([freeResult] ! j)))) @ '','' @
        quoted (escapeQuotes (customer ([freeResult] ! j))) @ '','' @
        quoted (escapeQuotes (case discountCode ([freeResult] ! j) of
                                None \<Rightarrow> [] | Some c \<Rightarrow> c)) @ '','' @
        quoted [] @ '','' @
        quoted (escapeQuotes (statusText (status ([freeResult] ! j)))) @ '','' @
        quoted (escapeQuotes (message ([freeResult] ! j))) @ '','' @
        quoted (escapeQuotes ((\<lambda>i. ''T'') j))"
    by blast
  with h have line': "join '','' (summaryCells (\<lambda>n. ''0'') ''T'' freeResult) =
        quoted (escapeQuotes (showInt (row freeResult))) @ '','' @
        quoted (escapeQuotes (customer freeResult)) @ '','' @
        quoted (escapeQuotes (case discountCode freeResult of None \<Rightarrow> [] | Some c \<Rightarrow> c)) @
        '','' @ quoted [] @ '','' @
        quoted (escapeQuotes (statusText (status freeResult))) @ '','' @
        quoted (escapeQuotes (message freeResult)) @ '','' @
        quoted (escapeQuotes ''T'')"
    by simp
  have out: \<open>generateCSVWithCodes (\<lambda>n. ''0'') (\<lambda>i. ''T'') [alice] [freeResult] =
     Inr (''"name","price","backing_tier","Discount_Code","Discount_Amount",'' @
          ''"Generation_Status","Generation_Message","Generated_At"'' @ [CHR 0x0A] @
          ''"Alice","25.00","Gold","KICKSTARTER_ALICE_1700000000000","","success",'' @
          ''"Discount code created successfully","T"'')\<close>
    unfolding full
    by (simp add: line) (simp add: newHeaders_def keys_def alice_def originalValues_def
        cellText_def getCell_def quoted_def escapeQuotes_def freeResult_def statusText_def)
  have out': \<open>generateSummaryCSV (\<lambda>n. ''0'') (\<lambda>i. ''T'') [freeResult] =
     ''"Row","Customer_Name","Discount_Code","Discount_Amount","Status","Message",'' @
     ''"Generated_At"'' @ [CHR 0x0A] @
     ''"1","Alice","KICKSTARTER_ALICE_1700000000000","","success",'' @
     ''"Discount code created successfully","T"''\<close>
    unfolding summary
    by (simp add: line') (simp add: summaryHeaders_def quoted_def escapeQuotes_def
        freeResult_def statusText_def showInt_def showNat.simps)
  from h out out' show ?thesis by blast
qed
end
